theory Spec2Isabelle
  imports Complex_Main "HOL-Library.Char_ord" "HOL-Library.List_Lexorder"
begin

section \<open>Python and library primitives used by app.py\<close>

text \<open>
  Python's \<^verbatim>\<open>range(a, b)\<close> over unbounded integers: the integers from \<open>a\<close> up to
  \<open>b - 1\<close>, empty when \<open>b \<le> a\<close>.
\<close>

definition range_py :: "int \<Rightarrow> int \<Rightarrow> int list" where
  "range_py a b = [a..b - 1]"

text \<open>
  The exceptions the modelled part of the script can end with.
  \<^verbatim>\<open>StreamlitAPIException\<close> and \<^verbatim>\<open>ValueError\<close> come from the slider widget,
  \<^verbatim>\<open>IndexError\<close> from indexing \<^verbatim>\<open>calendar.month_name\<close>.
\<close>

datatype error = StreamlitAPIException | ValueError | IndexError

text \<open>
  \<^verbatim>\<open>st.sidebar.select_slider(label, options=..., value=..., ...)\<close>.
  The widget raises \<^verbatim>\<open>StreamlitAPIException\<close> when \<^verbatim>\<open>options\<close> is empty, looks
  the default \<^verbatim>\<open>value\<close> up in \<^verbatim>\<open>options\<close> (a \<^verbatim>\<open>ValueError\<close> when it is not
  there), and returns one of the options: the default while the user has not moved the
  handle (\<open>pick = None\<close>), and otherwise the option under the handle, whose position
  \<open>i\<close> cannot leave the track (\<open>pick = Some i\<close>).
\<close>

definition select_slider :: "int list \<Rightarrow> int \<Rightarrow> nat option \<Rightarrow> error + int" where
  "select_slider options val pick =
     (if options = [] then Inl StreamlitAPIException
      else if val \<notin> set options then Inl ValueError
      else (case pick of
              None \<Rightarrow> Inr val
            | Some i \<Rightarrow> Inr (options ! min i (length options - 1))))"

section \<open>Sidebar: selected month and the before/after periods (lines 75-133)\<close>

text \<open>Line 75: the month slider offers \<^verbatim>\<open>range(1, 13)\<close> with default 6.\<close>

definition selected_month_slider :: "nat option \<Rightarrow> error + int" where
  "selected_month_slider pick = select_slider (range_py 1 13) 6 pick"

text \<open>
  Lines 96-128: the four period sliders, run in order; an exception of one of them ends
  the script run. Each slider's options depend on the values before it.
\<close>

definition period_sliders ::
  "int \<Rightarrow> nat option \<Rightarrow> nat option \<Rightarrow> nat option \<Rightarrow> nat option
     \<Rightarrow> error + (int \<times> int \<times> int \<times> int)" where
  "period_sliders selected_month p_bs p_be p_as p_ae =
     (case select_slider (range_py 1 selected_month) (max 1 (selected_month - 3)) p_bs of
        Inl e \<Rightarrow> Inl e
      | Inr before_start \<Rightarrow>
     (case select_slider (range_py before_start selected_month) (selected_month - 1) p_be of
        Inl e \<Rightarrow> Inl e
      | Inr before_end \<Rightarrow>
     (case select_slider (range_py (selected_month + 1) 13) (selected_month + 1) p_as of
        Inl e \<Rightarrow> Inl e
      | Inr after_start \<Rightarrow>
     (case select_slider (range_py after_start 13) (min 12 (selected_month + 3)) p_ae of
        Inl e \<Rightarrow> Inl e
      | Inr after_end \<Rightarrow> Inr (before_start, before_end, after_start, after_end)))))"

text \<open>Lines 131-133: the month lists computed from the four bounds.\<close>

definition before_months :: "int \<Rightarrow> int \<Rightarrow> int list" where
  "before_months before_start before_end = range_py before_start (before_end + 1)"

definition after_months :: "int \<Rightarrow> int \<Rightarrow> int list" where
  "after_months after_start after_end = range_py after_start (after_end + 1)"

definition comparison_months :: "int \<Rightarrow> int \<Rightarrow> int \<Rightarrow> int \<Rightarrow> int \<Rightarrow> int list" where
  "comparison_months selected_month before_start before_end after_start after_end =
     before_months before_start before_end @ [selected_month]
       @ after_months after_start after_end"

text \<open>
  Lines 75-133 as one run: the sliders, then the three lists. The result is the
  exception that ended the run, or \<open>(before_months, after_months, comparison_months)\<close>.
\<close>

definition resolve_periods ::
  "int \<Rightarrow> nat option \<Rightarrow> nat option \<Rightarrow> nat option \<Rightarrow> nat option
     \<Rightarrow> error + (int list \<times> int list \<times> int list)" where
  "resolve_periods selected_month p_bs p_be p_as p_ae =
     (case period_sliders selected_month p_bs p_be p_as p_ae of
        Inl e \<Rightarrow> Inl e
      | Inr (bs, be, as, ae) \<Rightarrow>
          Inr (before_months bs be, after_months as ae,
               comparison_months selected_month bs be as ae))"

text \<open>
  The bounds the sliders can offer for a selected month: each bound is a member of the
  option list its slider is given (lines 98, 106, 116 and 124).
\<close>

definition valid_bounds :: "int \<Rightarrow> int \<Rightarrow> int \<Rightarrow> int \<Rightarrow> int \<Rightarrow> bool" where
  "valid_bounds selected_month before_start before_end after_start after_end \<longleftrightarrow>
     before_start \<in> set (range_py 1 selected_month) \<and>
     before_end \<in> set (range_py before_start selected_month) \<and>
     after_start \<in> set (range_py (selected_month + 1) 13) \<and>
     after_end \<in> set (range_py after_start 13)"

section \<open>Numbers\<close>

text \<open>
  The noise levels and limits are float64 cells read from the CSV files. They are modelled
  as the rational numbers they denote, so comparisons are exact; the results of the
  script's divisions and means are values of \<open>float64\<close>, which adds the two infinities
  and NaN that numpy and pandas return instead of raising. Rounding of quotients to the
  nearest float is left out of the model.
\<close>

datatype float64 = Fin rat | PosInf | NegInf | NaN

text \<open>
  \<^verbatim>\<open>a / b\<close> where \<open>a\<close> is a numpy integer (the sum of boolean columns) and \<open>b\<close> a
  Python integer: numpy's true division, which returns NaN for \<open>0 / 0\<close> and an infinity
  for a nonzero numerator over zero.
\<close>

definition np_true_divide :: "int \<Rightarrow> int \<Rightarrow> float64" where
  "np_true_divide a b =
     (if b = 0 then (if a = 0 then NaN else if 0 < a then PosInf else NegInf)
      else Fin (of_int a / of_int b))"

text \<open>\<^verbatim>\<open>x * 100\<close> on a float64.\<close>

fun times_100 :: "float64 \<Rightarrow> float64" where
  "times_100 (Fin q) = Fin (q * 100)"
| "times_100 PosInf = PosInf"
| "times_100 NegInf = NegInf"
| "times_100 NaN = NaN"

text \<open>\<^verbatim>\<open>x - y\<close> on float64 values.\<close>

fun np_subtract :: "float64 \<Rightarrow> float64 \<Rightarrow> float64" where
  "np_subtract NaN _ = NaN"
| "np_subtract _ NaN = NaN"
| "np_subtract (Fin a) (Fin b) = Fin (a - b)"
| "np_subtract (Fin _) PosInf = NegInf"
| "np_subtract (Fin _) NegInf = PosInf"
| "np_subtract PosInf PosInf = NaN"
| "np_subtract PosInf _ = PosInf"
| "np_subtract NegInf NegInf = NaN"
| "np_subtract NegInf _ = NegInf"

text \<open>\<^verbatim>\<open>Series.mean()\<close>: NaN on an empty column.\<close>

definition mean :: "rat list \<Rightarrow> float64" where
  "mean xs = (if xs = [] then NaN else Fin (sum_list xs / of_nat (length xs)))"

text \<open>\<^verbatim>\<open>Series.sum()\<close> of a boolean column: the number of \<open>True\<close> cells.\<close>

definition bool_sum :: "bool list \<Rightarrow> int" where
  "bool_sum bs = sum_list (map of_bool bs)"

section \<open>Data model\<close>



text \<open>A row of the merged frame \<^verbatim>\<open>df\<close>, with the added \<^verbatim>\<open>MonthName\<close> column.\<close>

record row =
  Station :: string
  Month :: int
  Day :: rat
  Night :: rat
  Name :: string
  Type :: string
  City :: string
  DayLimit :: rat
  NightLimit :: rat
  MonthName :: string

text \<open>
  A row of \<^verbatim>\<open>violation_data\<close> (lines 449-452): the row and its three added columns.
\<close>

record violation_row = row +
  Day_Violation :: bool
  Night_Violation :: bool
  Total_Violations :: int

section \<open>Loading (lines 28-52)\<close>

text \<open>
  \<^verbatim>\<open>calendar.month_name\<close> is a sequence of 13 entries, the first one empty.
  \<^verbatim>\<open>calendar.month_name[x]\<close> indexes it as Python indexes a list: negative indices
  count from the end, anything else out of range raises \<^verbatim>\<open>IndexError\<close>.
\<close>

definition month_names :: "string list" where
  "month_names = ['''', ''January'', ''February'', ''March'', ''April'', ''May'', ''June'',
     ''July'', ''August'', ''September'', ''October'', ''November'', ''December'']"






section \<open>Filters (lines 136-140 and 232-243)\<close>

definition city_data :: "row list \<Rightarrow> string \<Rightarrow> row list" where
  "city_data df selected_city = filter (\<lambda>r. City r = selected_city) df"

definition month_data :: "row list \<Rightarrow> int \<Rightarrow> string list \<Rightarrow> row list" where
  "month_data cd selected_month selected_types =
     filter (\<lambda>r. Month r = selected_month \<and> Type r \<in> set selected_types) cd"

text \<open>\<^verbatim>\<open>before_data\<close> and \<^verbatim>\<open>after_data\<close>, for the month list given.\<close>

definition period_data :: "row list \<Rightarrow> int list \<Rightarrow> string list \<Rightarrow> row list" where
  "period_data cd months selected_types =
     filter (\<lambda>r. Month r \<in> set months \<and> Type r \<in> set selected_types) cd"

definition current_data :: "row list \<Rightarrow> int \<Rightarrow> string list \<Rightarrow> row list" where
  "current_data cd selected_month selected_types =
     filter (\<lambda>r. Month r = selected_month \<and> Type r \<in> set selected_types) cd"

section \<open>Current month metrics (lines 149-172)\<close>

text \<open>
  The delta shown next to the average: \<open>None\<close> when \<^verbatim>\<open>st.metric\<close> is called without
  one (the \<^verbatim>\<open>else\<close> branch). The previous month's rows are taken from
  \<^verbatim>\<open>city_data\<close> by month only.
\<close>

definition day_change :: "row list \<Rightarrow> int \<Rightarrow> string list \<Rightarrow> float64 option" where
  "day_change cd selected_month selected_types =
     (let avg_day = mean (map Day (month_data cd selected_month selected_types))
      in if 1 < selected_month
         then (let prev_month_avg =
                     mean (map Day (filter (\<lambda>r. Month r = selected_month - 1) cd))
               in Some (np_subtract avg_day prev_month_avg))
         else None)"

definition night_change :: "row list \<Rightarrow> int \<Rightarrow> string list \<Rightarrow> float64 option" where
  "night_change cd selected_month selected_types =
     (let avg_night = mean (map Night (month_data cd selected_month selected_types))
      in if 1 < selected_month
         then (let prev_month_avg =
                     mean (map Night (filter (\<lambda>r. Month r = selected_month - 1) cd))
               in Some (np_subtract avg_night prev_month_avg))
         else None)"

text \<open>
  The month-over-month delta as the specification words it, for comparison: both months
  under the same city and zone-type filter, absent unless the month is after January and
  the prior month has rows under that filter.
\<close>

definition spec_delta ::
  "(row \<Rightarrow> rat) \<Rightarrow> row list \<Rightarrow> int \<Rightarrow> string list \<Rightarrow> float64 option" where
  "spec_delta metric cd M selected_types =
     (let prior = month_data cd (M - 1) selected_types
      in if 1 < M \<and> prior \<noteq> []
         then Some (np_subtract (mean (map metric (month_data cd M selected_types)))
                                (mean (map metric prior)))
         else None)"

text \<open>Lines 168-171.\<close>

definition violation_perc :: "row list \<Rightarrow> float64" where
  "violation_perc md =
     times_100 (np_true_divide
       (bool_sum (map (\<lambda>r. DayLimit r < Day r) md)
          + bool_sum (map (\<lambda>r. NightLimit r < Night r) md))
       (int (length md) * 2))"

section \<open>Period summaries (lines 246-290)\<close>

text \<open>The expression given to the "Violations" metric of a period.\<close>

definition violations :: "row list \<Rightarrow> int" where
  "violations data = bool_sum (map (\<lambda>r. DayLimit r < Day r \<or> NightLimit r < Night r) data)"

text \<open>
  The before and after columns show their metrics only when the period has rows;
  the selected month's column always does.
\<close>

definition period_violations :: "row list \<Rightarrow> int option" where
  "period_violations data = (if data = [] then None else Some (violations data))"

section \<open>Violation analysis (lines 449-467 and 546-550)\<close>

definition add_violations :: "row \<Rightarrow> violation_row" where
  "add_violations r =
     (let dv = DayLimit r < Day r; nv = NightLimit r < Night r
      in \<lparr>Station = Station r, Month = Month r, Day = Day r, Night = Night r,
          Name = Name r, Type = Type r, City = City r,
          DayLimit = DayLimit r, NightLimit = NightLimit r, MonthName = MonthName r,
          Day_Violation = dv, Night_Violation = nv,
          Total_Violations = of_bool dv + of_bool nv\<rparr>)"

definition violation_data :: "row list \<Rightarrow> violation_row list" where
  "violation_data md = map add_violations md"

definition day_violations :: "violation_row list \<Rightarrow> int" where
  "day_violations vd = bool_sum (map Day_Violation vd)"

definition night_violations :: "violation_row list \<Rightarrow> int" where
  "night_violations vd = bool_sum (map Night_Violation vd)"

definition violation_percentage :: "violation_row list \<Rightarrow> float64" where
  "violation_percentage vd =
     times_100 (np_true_divide (day_violations vd + night_violations vd)
                               (int (length vd) * 2))"

text \<open>
  Lines 546-550, \<^verbatim>\<open>groupby('Type').agg(... 'sum' ...).reset_index()\<close>: one row per
  zone type present, in sorted order, with the three column sums of its group.
\<close>

definition zone_violations :: "violation_row list \<Rightarrow> (string \<times> int \<times> int \<times> int) list" where
  "zone_violations vd =
     map (\<lambda>t. let g = filter (\<lambda>r. Type r = t) vd
              in (t, bool_sum (map Day_Violation g), bool_sum (map Night_Violation g),
                  sum_list (map Total_Violations g)))
         (sort (remdups (map Type vd)))"

section \<open>Example rows\<close>

text \<open>
  A row of the merged frame for the examples below: station, month, zone type, day and
  night level, with 55 and 45 dB as the limits, in one city; the month is one of 1..12.
\<close>

definition example_row :: "string \<Rightarrow> int \<Rightarrow> string \<Rightarrow> rat \<Rightarrow> rat \<Rightarrow> row" where
  "example_row st mo ty d n =
     \<lparr>Station = st, Month = mo, Day = d, Night = n, Name = st, Type = ty,
      City = ''Delhi'', DayLimit = 55, NightLimit = 45,
      MonthName = month_names ! nat mo\<rparr>"

section \<open>Period resolution: properties\<close>

lemma set_range_py: "set (range_py a b) = {a..<b}"
  by (auto simp: range_py_def)

lemma distinct_range_py: "distinct (range_py a b)"
  by (simp add: range_py_def)

lemma select_slider_member:
  assumes "select_slider options d p = Inr v"
  shows "v \<in> set options"
proof -
  from assms have ne: "options \<noteq> []" and d: "d \<in> set options"
    by (auto simp: select_slider_def split: if_splits)
  show ?thesis
  proof (cases p)
    case None
    with assms ne d show ?thesis by (simp add: select_slider_def)
  next
    case (Some i)
    from ne have "min i (length options - 1) < length options"
      by (cases options) (auto simp: min_def)
    then have "options ! min i (length options - 1) \<in> set options"
      by (rule nth_mem)
    with assms ne d Some show ?thesis by (auto simp: select_slider_def)
  qed
qed


lemma valid_bounds_iff:
  "valid_bounds sm bs be as ae \<longleftrightarrow>
     1 \<le> bs \<and> bs \<le> be \<and> be < sm \<and> sm < as \<and> as \<le> ae \<and> ae \<le> 12"
  by (auto simp: valid_bounds_def set_range_py)

lemma select_slider_total:
  assumes "val \<in> set options"
  shows "\<exists>v. select_slider options val p = Inr v \<and> v \<in> set options"
proof -
  from assms have ne: "options \<noteq> []" by auto
  then obtain v where "select_slider options val p = Inr v"
    using assms by (cases p) (auto simp: select_slider_def)
  then show ?thesis using select_slider_member by blast
qed

text \<open>
  Claim C1. With January selected the first period slider is given the empty option list
  \<^verbatim>\<open>range(1, 1)\<close>, and with December selected the third one is given
  \<^verbatim>\<open>range(13, 13)\<close>: whatever the user picks, the run ends with the widget's
  exception before any month list is computed. Both months are reachable from the month
  slider (positions 0 and 11).
\<close>

theorem boundary_month_raises:
  "selected_month_slider (Some 0) = Inr 1 \<and>
   resolve_periods 1 p_bs p_be p_as p_ae = Inl StreamlitAPIException \<and>
   selected_month_slider (Some 11) = Inr 12 \<and>
   resolve_periods 12 p_bs p_be p_as p_ae = Inl StreamlitAPIException"
proof -
  have m1: "selected_month_slider (Some 0) = Inr 1"
    by (simp add: selected_month_slider_def select_slider_def range_py_def upto_rec1)
  have m12: "selected_month_slider (Some 11) = Inr 12"
    by code_simp
  have r1: "resolve_periods 1 p_bs p_be p_as p_ae = Inl StreamlitAPIException"
    by (simp add: resolve_periods_def period_sliders_def range_py_def select_slider_def)
  obtain bs where bs: "select_slider (range_py 1 12) (max 1 (12 - 3)) p_bs = Inr bs"
    and bsm: "bs \<in> set (range_py 1 12)"
    using select_slider_total [of "max 1 (12 - 3)" "range_py 1 12" p_bs]
    by (auto simp: set_range_py)
  from bsm have "12 - 1 \<in> set (range_py bs 12)" by (auto simp: set_range_py)
  then obtain be where be: "select_slider (range_py bs 12) (12 - 1) p_be = Inr be"
    using select_slider_total by blast
  have "range_py (12 + 1) 13 = []" by (simp add: range_py_def)
  then have "select_slider (range_py (12 + 1) 13) (12 + 1) p_as = Inl StreamlitAPIException"
    by (simp add: select_slider_def)
  with bs be have r12: "resolve_periods 12 p_bs p_be p_as p_ae = Inl StreamlitAPIException"
    by (simp add: resolve_periods_def period_sliders_def)
  from m1 m12 r1 r12 show ?thesis by simp
qed







text \<open>
  Claim C3. For bounds the sliders can offer, every month of the before list is below
  the selected month, every month of the after list is above it, and the comparison
  list has no repeated month.
\<close>

theorem period_ordering:
  assumes "valid_bounds selected_month before_start before_end after_start after_end"
  shows "(\<forall>m \<in> set (before_months before_start before_end). m < selected_month) \<and>
         (\<forall>m \<in> set (after_months after_start after_end). selected_month < m) \<and>
         distinct (comparison_months selected_month before_start before_end after_start after_end)"
  using assms
  by (auto simp: valid_bounds_iff comparison_months_def before_months_def after_months_def
        set_range_py distinct_range_py)

theorem period_ordering_witness:
  "valid_bounds 6 3 5 7 9 \<and>
   before_months 3 5 = [3, 4, 5] \<and> after_months 7 9 = [7, 8, 9] \<and>
   distinct (comparison_months 6 3 5 7 9) \<and> comparison_months 6 3 5 7 9 = [3, 4, 5, 6, 7, 8, 9]"
proof -
  have v: "valid_bounds 6 3 5 7 9" by (simp add: valid_bounds_iff)
  have c: "before_months 3 5 = [3, 4, 5]" "after_months 7 9 = [7, 8, 9]"
    "comparison_months 6 3 5 7 9 = [3, 4, 5, 6, 7, 8, 9]"
    by (simp_all add: before_months_def after_months_def comparison_months_def range_py_def
          upto_rec1)
  from v c period_ordering [OF v] show ?thesis by blast
qed

section \<open>Violation counts and rates: properties\<close>

lemma bool_sum_filter: "bool_sum (map P xs) = int (length (filter P xs))"
  by (induction xs) (simp_all add: bool_sum_def)

lemma Day_Violation_add: "Day_Violation (add_violations r) \<longleftrightarrow> DayLimit r < Day r"
  by (simp add: add_violations_def Let_def)

lemma Night_Violation_add: "Night_Violation (add_violations r) \<longleftrightarrow> NightLimit r < Night r"
  by (simp add: add_violations_def Let_def)

lemma Total_Violations_add:
  "Total_Violations (add_violations r)
     = of_bool (DayLimit r < Day r) + of_bool (NightLimit r < Night r)"
  by (simp add: add_violations_def Let_def)

lemma columns_add [simp]:
  "Day (add_violations r) = Day r" "DayLimit (add_violations r) = DayLimit r"
  "Night (add_violations r) = Night r" "NightLimit (add_violations r) = NightLimit r"
  "Type (add_violations r) = Type r"
  by (simp_all add: add_violations_def Let_def)

lemma day_violations_count:
  "day_violations (violation_data md) = int (length (filter (\<lambda>r. DayLimit r < Day r) md))"
  by (simp add: day_violations_def violation_data_def comp_def Day_Violation_add
        bool_sum_filter)

lemma night_violations_count:
  "night_violations (violation_data md) = int (length (filter (\<lambda>r. NightLimit r < Night r) md))"
  by (simp add: night_violations_def violation_data_def comp_def Night_Violation_add
        bool_sum_filter)

lemma length_violation_data: "length (violation_data md) = length md"
  by (simp add: violation_data_def)

text \<open>
  Claim C4, as stated, fails for an empty set of records: the divisor
  \<^verbatim>\<open>len(month_data) * 2\<close> is zero, the division is carried out all the same, and
  the rate is the NaN that numpy returns for \<open>0 / 0\<close>, which the metric then shows.
\<close>

theorem violation_rate_divides_by_zero:
  "int (length ([] :: row list)) * 2 = 0 \<and> violation_perc [] = NaN \<and>
   violation_percentage (violation_data []) = NaN"
  by (simp add: violation_perc_def violation_percentage_def violation_data_def
        day_violations_def night_violations_def bool_sum_def np_true_divide_def)

text \<open>
  Claim C4, amended: for N > 0 records the rate is
  \<open>(day violations + night violations) / (2 N) * 100\<close>, at line 168 and at line 466
  alike; for N = 0 the division by zero is carried out and the rate is NaN.
\<close>

theorem violation_rate_formula:
  "violation_perc md =
     (if md = [] then NaN
      else Fin (of_int (day_violations (violation_data md) + night_violations (violation_data md))
                  / of_int (2 * int (length md)) * 100)) \<and>
   violation_percentage (violation_data md) = violation_perc md"
proof -
  have a: "violation_percentage (violation_data md) = violation_perc md"
    by (simp add: violation_percentage_def violation_perc_def day_violations_count
          night_violations_count bool_sum_filter length_violation_data)
  have b: "violation_perc [] = NaN"
    by (simp add: violation_perc_def bool_sum_def np_true_divide_def)
  have c: "md \<noteq> [] \<Longrightarrow> violation_perc md =
      Fin (of_int (day_violations (violation_data md) + night_violations (violation_data md))
                  / of_int (2 * int (length md)) * 100)"
    by (simp add: violation_perc_def day_violations_count night_violations_count
          bool_sum_filter np_true_divide_def mult.commute)
  from a b c show ?thesis by simp
qed

theorem violation_rate_formula_witness:
  "violation_perc [example_row ''S1'' 6 ''Residential'' 60 50,
                   example_row ''S2'' 6 ''Residential'' 50 40] = Fin 50 \<and>
   violation_percentage (violation_data [example_row ''S1'' 6 ''Residential'' 60 50,
                   example_row ''S2'' 6 ''Residential'' 50 40]) = Fin 50"
proof -
  let ?md = "[example_row ''S1'' 6 ''Residential'' 60 50,
              example_row ''S2'' 6 ''Residential'' 50 40]"
  have d: "day_violations (violation_data ?md) = 1"
    by (simp add: day_violations_count example_row_def)
  have n: "night_violations (violation_data ?md) = 1"
    by (simp add: night_violations_count example_row_def)
  from violation_rate_formula [of ?md] d n show ?thesis by simp
qed

text \<open>
  Claim C5 against the code. One city, January with a residential station at 50 dB and
  an industrial one at 70 dB by day, February with the residential station at 60 dB,
  and only the residential zone type selected. The code takes the January mean over both
  zone types (60), so its day delta is 0, where the delta under one filter for both
  months is 60 - 50 = 10; by night the code shows -10 where that delta is 0.
\<close>

theorem delta_ignores_type_filter:
  "day_change (city_data [example_row ''S1'' 1 ''Residential'' 50 40,
                          example_row ''S2'' 1 ''Industrial'' 70 60,
                          example_row ''S1'' 2 ''Residential'' 60 40] ''Delhi'')
              2 [''Residential''] = Some (Fin 0) \<and>
   spec_delta Day (city_data [example_row ''S1'' 1 ''Residential'' 50 40,
                          example_row ''S2'' 1 ''Industrial'' 70 60,
                          example_row ''S1'' 2 ''Residential'' 60 40] ''Delhi'')
              2 [''Residential''] = Some (Fin 10) \<and>
   night_change (city_data [example_row ''S1'' 1 ''Residential'' 50 40,
                          example_row ''S2'' 1 ''Industrial'' 70 60,
                          example_row ''S1'' 2 ''Residential'' 60 40] ''Delhi'')
              2 [''Residential''] = Some (Fin (-10)) \<and>
   spec_delta Night (city_data [example_row ''S1'' 1 ''Residential'' 50 40,
                          example_row ''S2'' 1 ''Industrial'' 70 60,
                          example_row ''S1'' 2 ''Residential'' 60 40] ''Delhi'')
              2 [''Residential''] = Some (Fin 0)"
  by (simp add: day_change_def night_change_def spec_delta_def city_data_def month_data_def
        example_row_def mean_def Let_def)

section \<open>Loading: properties\<close>









section \<open>Violation classification: properties\<close>

lemma Total_Violations_flags:
  "Total_Violations (add_violations r)
     = of_bool (Day_Violation (add_violations r)) + of_bool (Night_Violation (add_violations r))"
  by (simp add: add_violations_def Let_def)

lemma truncate_add_violations: "row.truncate (add_violations r) = r"
  by (cases r) (simp add: add_violations_def row.truncate_def Let_def)

text \<open>
  Claim C7. \<^verbatim>\<open>violation_data\<close> has one row for each record, in the same order, with
  the record's own columns unchanged. The day flag of that row holds exactly when the
  record's day level is strictly above its day limit, the night flag exactly when its
  night level is strictly above its night limit; a level equal to its limit is no
  violation; and the total is the sum of the two flags, one of 0, 1 and 2.
\<close>

theorem violation_flags:
  "length (violation_data md) = length md \<and>
   (\<forall>i < length md.
      row.truncate (violation_data md ! i) = md ! i \<and>
      (Day_Violation (violation_data md ! i) \<longleftrightarrow> DayLimit (md ! i) < Day (md ! i)) \<and>
      (Night_Violation (violation_data md ! i) \<longleftrightarrow> NightLimit (md ! i) < Night (md ! i)) \<and>
      (Day (md ! i) = DayLimit (md ! i) \<longrightarrow> \<not> Day_Violation (violation_data md ! i)) \<and>
      (Night (md ! i) = NightLimit (md ! i) \<longrightarrow> \<not> Night_Violation (violation_data md ! i)) \<and>
      Total_Violations (violation_data md ! i)
        = of_bool (DayLimit (md ! i) < Day (md ! i))
          + of_bool (NightLimit (md ! i) < Night (md ! i)) \<and>
      Total_Violations (violation_data md ! i) \<in> {0, 1, 2})"
proof -
  have row: "row.truncate (add_violations r) = r \<and>
      (Day_Violation (add_violations r) \<longleftrightarrow> DayLimit r < Day r) \<and>
      (Night_Violation (add_violations r) \<longleftrightarrow> NightLimit r < Night r) \<and>
      (Day r = DayLimit r \<longrightarrow> \<not> Day_Violation (add_violations r)) \<and>
      (Night r = NightLimit r \<longrightarrow> \<not> Night_Violation (add_violations r)) \<and>
      Total_Violations (add_violations r)
        = of_bool (DayLimit r < Day r) + of_bool (NightLimit r < Night r) \<and>
      Total_Violations (add_violations r) \<in> {0, 1, 2}" for r
  proof -
    have t: "Total_Violations (add_violations r)
        = of_bool (DayLimit r < Day r) + of_bool (NightLimit r < Night r)"
      by (rule Total_Violations_add)
    then have "Total_Violations (add_violations r) \<in> {0, 1, 2}"
      by (cases "DayLimit r < Day r"; cases "NightLimit r < Night r") simp_all
    with t show ?thesis
      by (simp add: truncate_add_violations Day_Violation_add Night_Violation_add)
  qed
  have "violation_data md ! i = add_violations (md ! i)" if "i < length md" for i
    using that by (simp add: violation_data_def)
  with row show ?thesis by (simp add: length_violation_data)
qed

theorem violation_flags_witness:
  "length (violation_data [example_row ''S1'' 6 ''Residential'' 55 45,
                           example_row ''S2'' 6 ''Residential'' (55 + 1 / 100) 40]) = 2 \<and>
   row.truncate (violation_data [example_row ''S1'' 6 ''Residential'' 55 45,
                           example_row ''S2'' 6 ''Residential'' (55 + 1 / 100) 40] ! 1)
     = example_row ''S2'' 6 ''Residential'' (55 + 1 / 100) 40 \<and>
   \<not> Day_Violation (violation_data [example_row ''S1'' 6 ''Residential'' 55 45,
                           example_row ''S2'' 6 ''Residential'' (55 + 1 / 100) 40] ! 0) \<and>
   Total_Violations (violation_data [example_row ''S1'' 6 ''Residential'' 55 45,
                           example_row ''S2'' 6 ''Residential'' (55 + 1 / 100) 40] ! 0) = 0 \<and>
   Day_Violation (violation_data [example_row ''S1'' 6 ''Residential'' 55 45,
                           example_row ''S2'' 6 ''Residential'' (55 + 1 / 100) 40] ! 1) \<and>
   Total_Violations (violation_data [example_row ''S1'' 6 ''Residential'' 55 45,
                           example_row ''S2'' 6 ''Residential'' (55 + 1 / 100) 40] ! 1) = 1"
proof -
  let ?r1 = "example_row ''S1'' 6 ''Residential'' 55 45"
  let ?r2 = "example_row ''S2'' 6 ''Residential'' (55 + 1 / 100) 40"
  have e: "Day ?r1 = DayLimit ?r1" "\<not> NightLimit ?r1 < Night ?r1"
    "DayLimit ?r2 < Day ?r2" "\<not> NightLimit ?r2 < Night ?r2" "\<not> DayLimit ?r1 < Day ?r1"
    by (simp_all add: example_row_def)
  have n: "[?r1, ?r2] ! 0 = ?r1" "[?r1, ?r2] ! 1 = ?r2" "(0::nat) < length [?r1, ?r2]"
    "(1::nat) < length [?r1, ?r2]"
    by simp_all
  from violation_flags [of "[?r1, ?r2]"]
  have a: "length (violation_data [?r1, ?r2]) = length [?r1, ?r2]"
    and 0: "row.truncate (violation_data [?r1, ?r2] ! 0) = [?r1, ?r2] ! 0 \<and>
      (Day_Violation (violation_data [?r1, ?r2] ! 0)
         \<longleftrightarrow> DayLimit ([?r1, ?r2] ! 0) < Day ([?r1, ?r2] ! 0)) \<and>
      Total_Violations (violation_data [?r1, ?r2] ! 0)
        = of_bool (DayLimit ([?r1, ?r2] ! 0) < Day ([?r1, ?r2] ! 0))
          + of_bool (NightLimit ([?r1, ?r2] ! 0) < Night ([?r1, ?r2] ! 0))"
    and 1: "row.truncate (violation_data [?r1, ?r2] ! 1) = [?r1, ?r2] ! 1 \<and>
      (Day_Violation (violation_data [?r1, ?r2] ! 1)
         \<longleftrightarrow> DayLimit ([?r1, ?r2] ! 1) < Day ([?r1, ?r2] ! 1)) \<and>
      Total_Violations (violation_data [?r1, ?r2] ! 1)
        = of_bool (DayLimit ([?r1, ?r2] ! 1) < Day ([?r1, ?r2] ! 1))
          + of_bool (NightLimit ([?r1, ?r2] ! 1) < Night ([?r1, ?r2] ! 1))"
    using n(3,4) by blast+
  from a 0 1 e show ?thesis unfolding n(1,2) by simp
qed

text \<open>
  Claim C8. The "Violations" metric of a period counts the records with a day or a night
  violation, each once; it differs from the sum of the day and night violation counts by
  the number of records that violate both, so the two are different statistics, each
  shown by its own metric. Two records that violate only at night give 2 records,
  0 day violations and 2 night violations.
\<close>

theorem violations_counts_records:
  "violations data
     = int (length (filter (\<lambda>v. Day_Violation v \<or> Night_Violation v) (violation_data data))) \<and>
   violations data
       + int (length (filter (\<lambda>v. Day_Violation v \<and> Night_Violation v) (violation_data data)))
     = day_violations (violation_data data) + night_violations (violation_data data) \<and>
   ((\<forall>r \<in> set data. \<not> DayLimit r < Day r \<and> NightLimit r < Night r) \<longrightarrow>
      violations data = int (length data) \<and> day_violations (violation_data data) = 0 \<and>
      night_violations (violation_data data) = int (length data))"
proof -
  have f: "filter (\<lambda>v. P (Day_Violation v) (Night_Violation v)) (violation_data data)
             = map add_violations (filter (\<lambda>r. P (DayLimit r < Day r) (NightLimit r < Night r)) data)"
    for P
    by (simp add: violation_data_def filter_map comp_def Day_Violation_add Night_Violation_add)
  have a: "violations data
     = int (length (filter (\<lambda>v. Day_Violation v \<or> Night_Violation v) (violation_data data)))"
    by (simp add: f [of "(\<or>)"] violations_def bool_sum_filter)
  have b: "violations data
       + int (length (filter (\<lambda>v. Day_Violation v \<and> Night_Violation v) (violation_data data)))
     = day_violations (violation_data data) + night_violations (violation_data data)"
    unfolding f [of "(\<and>)"] day_violations_count night_violations_count violations_def
      bool_sum_filter
    by (induction data) auto
  have c: "(\<forall>r \<in> set data. \<not> DayLimit r < Day r \<and> NightLimit r < Night r) \<longrightarrow>
      violations data = int (length data) \<and> day_violations (violation_data data) = 0 \<and>
      night_violations (violation_data data) = int (length data)"
    unfolding day_violations_count night_violations_count violations_def bool_sum_filter
    by (induction data) auto
  from a b c show ?thesis by blast
qed

theorem violations_counts_records_witness:
  "violations [example_row ''S1'' 6 ''Residential'' 50 50,
               example_row ''S2'' 6 ''Industrial'' 55 46] = 2 \<and>
   day_violations (violation_data [example_row ''S1'' 6 ''Residential'' 50 50,
               example_row ''S2'' 6 ''Industrial'' 55 46]) = 0 \<and>
   night_violations (violation_data [example_row ''S1'' 6 ''Residential'' 50 50,
               example_row ''S2'' 6 ''Industrial'' 55 46]) = 2"
proof -
  let ?data = "[example_row ''S1'' 6 ''Residential'' 50 50,
               example_row ''S2'' 6 ''Industrial'' 55 46]"
  have h: "\<forall>r \<in> set ?data. \<not> DayLimit r < Day r \<and> NightLimit r < Night r"
    by (simp add: example_row_def)
  from violations_counts_records [of ?data] h show ?thesis by simp
qed

lemma sum_Total_Violations:
  assumes "\<forall>v \<in> set g.
     Total_Violations v = of_bool (Day_Violation v) + of_bool (Night_Violation v)"
  shows "sum_list (map Total_Violations g)
           = bool_sum (map Day_Violation g) + bool_sum (map Night_Violation g)"
  using assms by (induction g) (simp_all add: bool_sum_def)

text \<open>
  Claim C10. In every row of the zone-wise roll-up of \<^verbatim>\<open>violation_data\<close>, the sum of
  the totals of the zone type's group is the sum of its day violations plus the sum of
  its night violations.
\<close>

theorem zone_totals_add_up:
  "\<forall>(t, d, n, total) \<in> set (zone_violations (violation_data md)). total = d + n"
proof -
  have "sum_list (map Total_Violations (filter (\<lambda>r. Type r = t) (violation_data md)))
      = bool_sum (map Day_Violation (filter (\<lambda>r. Type r = t) (violation_data md)))
        + bool_sum (map Night_Violation (filter (\<lambda>r. Type r = t) (violation_data md)))" for t
    by (rule sum_Total_Violations) (auto simp: violation_data_def Total_Violations_flags)
  then show ?thesis
    by (auto simp: zone_violations_def Let_def)
qed

theorem zone_totals_add_up_witness:
  "zone_violations (violation_data [example_row ''S1'' 6 ''Residential'' 60 50,
                                    example_row ''S2'' 6 ''Industrial'' 60 40,
                                    example_row ''S3'' 6 ''Residential'' 50 50])
     = [(''Industrial'', 1, 0, 1), (''Residential'', 1, 2, 3)] \<and>
   (1::int) = 1 + 0 \<and> (3::int) = 1 + 2"
proof -
  let ?md = "[example_row ''S1'' 6 ''Residential'' 60 50,
              example_row ''S2'' 6 ''Industrial'' 60 40,
              example_row ''S3'' 6 ''Residential'' 50 50]"
  have z: "zone_violations (violation_data ?md)
     = [(''Industrial'', 1, 0, 1), (''Residential'', 1, 2, 3)]"
    by code_simp
  from zone_totals_add_up [of ?md] z show ?thesis by simp
qed

end
